theory Spec2Isabelle
  imports Main "HOL-Library.AList"
begin

section \<open>Python values, indexing and exceptions\<close>

text \<open>
  Python integers are unbounded (\<open>int\<close>); an attribute of type \<open>Optional[int]\<close> is an
  \<open>int option\<close>. An exception that leaves a method is the left summand of the result;
  a loop of the form \<open>while idx != target\<close> may run forever, so the functions that contain
  one return an \<open>option\<close> whose \<open>None\<close> means that the call does not return.
\<close>

datatype py_error = IndexError | TypeError | ZeroDivisionError

definition ebind :: "'e + 'a \<Rightarrow> ('a \<Rightarrow> 'e + 'b) \<Rightarrow> 'e + 'b" where
  "ebind m f = (case m of Inl e \<Rightarrow> Inl e | Inr x \<Rightarrow> f x)"

definition dbind :: "('e + 'a) option \<Rightarrow> ('a \<Rightarrow> ('e + 'b) option) \<Rightarrow> ('e + 'b) option" where
  "dbind m f = (case m of None \<Rightarrow> None | Some (Inl e) \<Rightarrow> Some (Inl e) | Some (Inr x) \<Rightarrow> f x)"

text \<open>List indexing \<open>xs[i]\<close>: a negative index counts from the end, an index out of range
  raises \<open>IndexError\<close>.\<close>

definition py_index :: "'a list \<Rightarrow> int \<Rightarrow> nat option" where
  "py_index xs i =
     (let n = int (length xs); j = (if i < 0 then n + i else i)
      in if 0 \<le> j \<and> j < n then Some (nat j) else None)"

definition py_get :: "'a list \<Rightarrow> int \<Rightarrow> py_error + 'a" where
  "py_get xs i = (case py_index xs i of None \<Rightarrow> Inl IndexError | Some k \<Rightarrow> Inr (xs ! k))"

definition py_set :: "'a list \<Rightarrow> int \<Rightarrow> 'a \<Rightarrow> py_error + 'a list" where
  "py_set xs i v = (case py_index xs i of None \<Rightarrow> Inl IndexError | Some k \<Rightarrow> Inr (xs[k := v]))"

text \<open>\<open>a % b\<close>: the result has the sign of the divisor, as \<open>mod\<close> on \<open>int\<close> has; a zero
  divisor raises.\<close>

definition py_mod :: "int \<Rightarrow> int \<Rightarrow> py_error + int" where
  "py_mod a b = (if b = 0 then Inl ZeroDivisionError else Inr (a mod b))"

text \<open>\<open>a + b\<close> and \<open>a >= b\<close> where an operand may be \<open>None\<close>: \<open>TypeError\<close>.\<close>

definition py_add :: "int option \<Rightarrow> int option \<Rightarrow> py_error + int" where
  "py_add a b = (case (a, b) of (Some x, Some y) \<Rightarrow> Inr (x + y) | _ \<Rightarrow> Inl TypeError)"

definition py_ge :: "int option \<Rightarrow> int option \<Rightarrow> py_error + bool" where
  "py_ge a b = (case (a, b) of (Some x, Some y) \<Rightarrow> Inr (x \<ge> y) | _ \<Rightarrow> Inl TypeError)"


section \<open>synchronization.py: AtomicOperation\<close>

record AtomicOperation =
  a_op_type :: string
  a_address :: int
  a_seq_num :: int
  a_old_value :: "int option"
  a_new_value :: "int option"
  a_expected_value :: "int option"
  a_lock_acquired :: bool
  a_completed :: bool
  a_success :: bool

definition AtomicOperation_init :: "string \<Rightarrow> int \<Rightarrow> int \<Rightarrow> AtomicOperation" where
  "AtomicOperation_init ty addr seq =
     \<lparr>a_op_type = ty, a_address = addr, a_seq_num = seq, a_old_value = None,
      a_new_value = None, a_expected_value = None, a_lock_acquired = False,
      a_completed = False, a_success = False\<rparr>"

text \<open>\<open>AtomicOperation.execute(memory_value, write_value, expected)\<close>: the object after the
  call and the returned pair \<open>(success, result_value)\<close>.\<close>

definition execute :: "AtomicOperation \<Rightarrow> int \<Rightarrow> int \<Rightarrow> int option
    \<Rightarrow> AtomicOperation \<times> (bool \<times> int)" where
  "execute a memory_value write_value expected =
     (let a1 = a\<lparr>a_old_value := Some memory_value\<rparr> in
      if a_op_type a1 = ''SWAP'' then
        (a1\<lparr>a_new_value := Some write_value, a_success := True\<rparr>, (True, memory_value))
      else if a_op_type a1 = ''CAS'' then
        (case expected of
           None \<Rightarrow> (a1, (False, memory_value))
         | Some ex \<Rightarrow>
             (let a2 = a1\<lparr>a_expected_value := Some ex\<rparr> in
              if memory_value = ex then
                (a2\<lparr>a_new_value := Some write_value, a_success := True\<rparr>, (True, memory_value))
              else (a2\<lparr>a_success := False\<rparr>, (False, memory_value))))
      else if a_op_type a1 = ''FADD'' then
        (a1\<lparr>a_new_value := Some (memory_value + write_value), a_success := True\<rparr>,
         (True, memory_value))
      else (a1, (False, memory_value)))"


section \<open>predictor.py: StoreSetPredictor\<close>

text \<open>
  The two tables are Python dictionaries; they are association lists in insertion order,
  read with \<open>map_of\<close>, written with \<open>AList.update\<close> and \<open>AList.delete\<close>. The confidence
  table is a \<open>defaultdict\<close> with default 2, a total function. \<open>free_store_sets\<close> is a Python
  set; \<open>set.pop()\<close> removes an arbitrary element, so the element it picks is the parameter
  \<open>set_pop\<close> of every operation that can reach \<open>_allocate_store_set\<close>.
\<close>

record StoreSetPredictor =
  ssit_size :: int
  max_store_sets :: int
  ssit :: "(int \<times> int) list"
  lfst :: "(int \<times> int) list"
  confidence :: "int \<Rightarrow> int"
  next_store_set_id :: int
  free_store_sets :: "int set"
  predictions :: int
  correct_predictions :: int
  violations :: int

definition StoreSetPredictor_init :: "int \<Rightarrow> int \<Rightarrow> StoreSetPredictor" where
  "StoreSetPredictor_init ssz mss =
     \<lparr>ssit_size = ssz, max_store_sets = mss, ssit = [], lfst = [],
      confidence = (\<lambda>_. 2), next_store_set_id = 0,
      free_store_sets = set (map int [0..<nat mss]),
      predictions = 0, correct_predictions = 0, violations = 0\<rparr>"

definition get_ssit_index :: "StoreSetPredictor \<Rightarrow> int \<Rightarrow> py_error + int" where
  "get_ssit_index p pc = py_mod (pc div 4) (ssit_size p)"

definition predict_load :: "StoreSetPredictor \<Rightarrow> int
    \<Rightarrow> py_error + (StoreSetPredictor \<times> (bool \<times> int option))" where
  "predict_load p load_pc =
     (let p1 = p\<lparr>predictions := predictions p + 1\<rparr> in
      ebind (get_ssit_index p1 load_pc) (\<lambda>ssit_idx.
        let store_set_id = map_of (ssit p1) ssit_idx;
            conf = confidence p1 load_pc
        in case store_set_id of
             None \<Rightarrow> Inr (p1, (True, None))
           | Some sid \<Rightarrow>
               if conf \<ge> 2 then Inr (p1, (True, None))
               else (case map_of (lfst p1) sid of
                       Some last_store_seq \<Rightarrow> Inr (p1, (False, Some last_store_seq))
                     | None \<Rightarrow> Inr (p1, (True, None)))))"

definition register_store :: "StoreSetPredictor \<Rightarrow> int \<Rightarrow> int
    \<Rightarrow> py_error + StoreSetPredictor" where
  "register_store p store_pc seq =
     ebind (get_ssit_index p store_pc) (\<lambda>ssit_idx.
       case map_of (ssit p) ssit_idx of
         Some sid \<Rightarrow> Inr (p\<lparr>lfst := AList.update sid seq (lfst p)\<rparr>)
       | None \<Rightarrow> Inr p)"

definition clear_store :: "StoreSetPredictor \<Rightarrow> int \<Rightarrow> py_error + StoreSetPredictor" where
  "clear_store p store_pc =
     ebind (get_ssit_index p store_pc) (\<lambda>ssit_idx.
       case map_of (ssit p) ssit_idx of
         Some sid \<Rightarrow>
           (if map_of (lfst p) sid \<noteq> None then Inr (p\<lparr>lfst := AList.delete sid (lfst p)\<rparr>)
            else Inr p)
       | None \<Rightarrow> Inr p)"

text \<open>\<open>for idx in list(self.ssit.keys()): if self.ssit[idx] == old: self.ssit[idx] = new\<close>\<close>

definition ssit_replace :: "int \<Rightarrow> int \<Rightarrow> (int \<times> int) list \<Rightarrow> (int \<times> int) list" where
  "ssit_replace old new s =
     fold (\<lambda>idx t. if map_of t idx = Some old then AList.update idx new t else t) (map fst s) s"

text \<open>\<open>for idx in list(self.ssit.keys()): if self.ssit[idx] == set_id: del self.ssit[idx]\<close>\<close>

definition ssit_remove :: "int \<Rightarrow> (int \<times> int) list \<Rightarrow> (int \<times> int) list" where
  "ssit_remove set_id s =
     fold (\<lambda>idx t. if map_of t idx = Some set_id then AList.delete idx t else t) (map fst s) s"

definition allocate_store_set :: "(int set \<Rightarrow> int) \<Rightarrow> StoreSetPredictor
    \<Rightarrow> StoreSetPredictor \<times> int option" where
  "allocate_store_set set_pop p =
     (if free_store_sets p \<noteq> {} then
        (let x = set_pop (free_store_sets p)
         in (p\<lparr>free_store_sets := free_store_sets p - {x}\<rparr>, Some x))
      else
        (case find (\<lambda>set_id. map_of (lfst p) set_id = None) (map int [0..<nat (max_store_sets p)]) of
           Some set_id \<Rightarrow> (p\<lparr>ssit := ssit_remove set_id (ssit p)\<rparr>, Some set_id)
         | None \<Rightarrow> (p, None)))"

definition report_violation :: "(int set \<Rightarrow> int) \<Rightarrow> StoreSetPredictor \<Rightarrow> int \<Rightarrow> int
    \<Rightarrow> py_error + StoreSetPredictor" where
  "report_violation set_pop p load_pc store_pc =
     (let p1 = p\<lparr>violations := violations p + 1\<rparr> in
      ebind (get_ssit_index p1 load_pc) (\<lambda>load_idx.
      ebind (get_ssit_index p1 store_pc) (\<lambda>store_idx.
        let load_set = map_of (ssit p1) load_idx;
            store_set = map_of (ssit p1) store_idx;
            p2 = (case (load_set, store_set) of
                    (None, None) \<Rightarrow>
                      (case allocate_store_set set_pop p1 of
                         (p', Some new_set_id) \<Rightarrow>
                           p'\<lparr>ssit := AList.update store_idx new_set_id
                                         (AList.update load_idx new_set_id (ssit p'))\<rparr>
                       | (p', None) \<Rightarrow> p')
                  | (None, Some ss) \<Rightarrow> p1\<lparr>ssit := AList.update load_idx ss (ssit p1)\<rparr>
                  | (Some ls, None) \<Rightarrow> p1\<lparr>ssit := AList.update store_idx ls (ssit p1)\<rparr>
                  | (Some ls, Some ss) \<Rightarrow>
                      if ls \<noteq> ss then
                        p1\<lparr>ssit := ssit_replace ss ls (ssit p1),
                           free_store_sets := insert ss (free_store_sets p1)\<rparr>
                      else p1)
        in Inr (if confidence p2 load_pc > 0
                then p2\<lparr>confidence := (confidence p2)(load_pc := confidence p2 load_pc - 1)\<rparr>
                else p2))))"

definition report_correct_speculation :: "StoreSetPredictor \<Rightarrow> int \<Rightarrow> StoreSetPredictor" where
  "report_correct_speculation p load_pc =
     (let p1 = p\<lparr>correct_predictions := correct_predictions p + 1\<rparr> in
      if confidence p1 load_pc < 3
      then p1\<lparr>confidence := (confidence p1)(load_pc := confidence p1 load_pc + 1)\<rparr>
      else p1)"


text \<open>A sequence of calls of the predictor's public operations, from the left; the value
  returned by \<open>predict_load\<close> is dropped.\<close>

datatype pred_op =
    PredictLoad int
  | RegisterStore int int
  | ClearStore int
  | ReportViolation int int
  | ReportCorrectSpeculation int

fun pred_step :: "(int set \<Rightarrow> int) \<Rightarrow> StoreSetPredictor \<Rightarrow> pred_op
    \<Rightarrow> py_error + StoreSetPredictor" where
  "pred_step set_pop p (PredictLoad a) = ebind (predict_load p a) (\<lambda>(p', _). Inr p')"
| "pred_step set_pop p (RegisterStore a seq) = register_store p a seq"
| "pred_step set_pop p (ClearStore a) = clear_store p a"
| "pred_step set_pop p (ReportViolation la sa) = report_violation set_pop p la sa"
| "pred_step set_pop p (ReportCorrectSpeculation a) = Inr (report_correct_speculation p a)"

fun pred_run :: "(int set \<Rightarrow> int) \<Rightarrow> StoreSetPredictor \<Rightarrow> pred_op list
    \<Rightarrow> py_error + StoreSetPredictor" where
  "pred_run set_pop p [] = Inr p"
| "pred_run set_pop p (x # xs) = ebind (pred_step set_pop p x) (\<lambda>p'. pred_run set_pop p' xs)"

text \<open>The store-set invariant of the data model: every set id with an entry in the LFST is
  the value of some SSIT index.\<close>

definition lfst_ids_in_ssit :: "StoreSetPredictor \<Rightarrow> bool" where
  "lfst_ids_in_ssit p = list_all (\<lambda>sid. List.member (map snd (ssit p)) sid) (map fst (lfst p))"


section \<open>lsq.py: LoadStoreQueue\<close>

datatype MemOpType = Op_LOAD | Op_STORE | Op_ATOMIC

record LSQEntry =
  e_seq_num :: int
  e_pc :: int
  e_op_type :: MemOpType
  e_size :: int
  e_address :: "int option"
  e_data :: "int option"
  e_address_valid :: bool
  e_data_valid :: bool
  e_speculative :: bool
  e_completed :: bool
  e_committed :: bool

definition LSQEntry_init :: "int \<Rightarrow> int \<Rightarrow> MemOpType \<Rightarrow> int \<Rightarrow> LSQEntry" where
  "LSQEntry_init seq pc ty sz =
     \<lparr>e_seq_num = seq, e_pc = pc, e_op_type = ty, e_size = sz, e_address = None,
      e_data = None, e_address_valid = False, e_data_valid = False,
      e_speculative = False, e_completed = False, e_committed = False\<rparr>"

text \<open>The ring: \<open>entries\<close> holds \<open>None\<close> or an entry object. The entry objects are referenced
  from the ring only, so a slot holds the entry's value.\<close>

record LoadStoreQueue =
  lsq_capacity :: int
  lsq_entries :: "LSQEntry option list"
  lsq_head :: int
  lsq_tail :: int
  lsq_size :: int

definition LoadStoreQueue_init :: "int \<Rightarrow> LoadStoreQueue" where
  "LoadStoreQueue_init cap =
     \<lparr>lsq_capacity = cap, lsq_entries = replicate (nat cap) None,
      lsq_head = 0, lsq_tail = 0, lsq_size = 0\<rparr>"

definition lsq_is_full :: "LoadStoreQueue \<Rightarrow> bool" where
  "lsq_is_full q = (lsq_size q \<ge> lsq_capacity q)"

definition lsq_is_empty :: "LoadStoreQueue \<Rightarrow> bool" where
  "lsq_is_empty q = (lsq_size q = 0)"

definition lsq_allocate :: "LoadStoreQueue \<Rightarrow> int \<Rightarrow> int \<Rightarrow> MemOpType \<Rightarrow> int
    \<Rightarrow> py_error + (LoadStoreQueue \<times> int option)" where
  "lsq_allocate q seq pc ty sz =
     (if lsq_is_full q then Inr (q, None)
      else
        ebind (py_set (lsq_entries q) (lsq_tail q) (Some (LSQEntry_init seq pc ty sz))) (\<lambda>es.
        ebind (py_mod (lsq_tail q + 1) (lsq_capacity q)) (\<lambda>t.
          Inr (q\<lparr>lsq_entries := es, lsq_tail := t, lsq_size := lsq_size q + 1\<rparr>,
               Some (lsq_tail q)))))"

text \<open>The common shape of \<open>update_address\<close>, \<open>update_data\<close>, \<open>mark_speculative\<close> and
  \<open>mark_completed\<close>: \<open>if 0 <= idx < self.capacity and self.entries[idx]: \<dots>\<close> changes
  attributes of the entry in slot \<open>idx\<close>.\<close>

definition lsq_entry_update :: "LoadStoreQueue \<Rightarrow> int \<Rightarrow> (LSQEntry \<Rightarrow> LSQEntry)
    \<Rightarrow> py_error + LoadStoreQueue" where
  "lsq_entry_update q idx f =
     (if 0 \<le> idx \<and> idx < lsq_capacity q then
        ebind (py_get (lsq_entries q) idx) (\<lambda>entry.
          case entry of
            None \<Rightarrow> Inr q
          | Some e \<Rightarrow>
              ebind (py_set (lsq_entries q) idx (Some (f e))) (\<lambda>es.
                Inr (q\<lparr>lsq_entries := es\<rparr>)))
      else Inr q)"

definition update_address :: "LoadStoreQueue \<Rightarrow> int \<Rightarrow> int \<Rightarrow> py_error + LoadStoreQueue" where
  "update_address q idx addr =
     lsq_entry_update q idx (\<lambda>e. e\<lparr>e_address := Some addr, e_address_valid := True\<rparr>)"

definition update_data :: "LoadStoreQueue \<Rightarrow> int \<Rightarrow> int option \<Rightarrow> py_error + LoadStoreQueue" where
  "update_data q idx d =
     lsq_entry_update q idx
       (\<lambda>e. if e_op_type e = Op_STORE then e\<lparr>e_data := d, e_data_valid := True\<rparr> else e)"

definition mark_speculative :: "LoadStoreQueue \<Rightarrow> int \<Rightarrow> py_error + LoadStoreQueue" where
  "mark_speculative q idx = lsq_entry_update q idx (\<lambda>e. e\<lparr>e_speculative := True\<rparr>)"

definition mark_completed :: "LoadStoreQueue \<Rightarrow> int \<Rightarrow> py_error + LoadStoreQueue" where
  "mark_completed q idx = lsq_entry_update q idx (\<lambda>e. e\<lparr>e_completed := True\<rparr>)"

definition addresses_overlap :: "int option \<Rightarrow> int \<Rightarrow> int option \<Rightarrow> int \<Rightarrow> py_error + bool" where
  "addresses_overlap addr1 size1 addr2 size2 =
     (case (addr1, addr2) of
        (Some a1, Some a2) \<Rightarrow>
          (let end1 = a1 + size1; end2 = a2 + size2
           in Inr (\<not> (end1 \<le> a2 \<or> end2 \<le> a1)))
      | _ \<Rightarrow> Inl TypeError)"

text \<open>The accumulator of the scan: \<open>(latest_conflict_idx, can_forward, forward_data)\<close>.\<close>

type_synonym dep_acc = "int option \<times> bool \<times> int option"

text \<open>One pass through the body of the \<open>while\<close> loop of \<open>check_dependency\<close>, for the slot
  content \<open>entry\<close> at index \<open>idx\<close>.\<close>

definition check_dependency_body :: "LSQEntry option \<Rightarrow> int option \<Rightarrow> int \<Rightarrow> int \<Rightarrow> dep_acc
    \<Rightarrow> py_error + dep_acc" where
  "check_dependency_body entry load_addr load_size idx acc =
     (case entry of
        None \<Rightarrow> Inr acc
      | Some e \<Rightarrow>
          if e_op_type e = Op_STORE \<or> e_op_type e = Op_ATOMIC then
            (if e_address_valid e then
               ebind (addresses_overlap (e_address e) (e_size e) load_addr load_size) (\<lambda>ov.
                 if ov then
                   (if e_data_valid e \<and> e_address e = load_addr \<and> e_size e \<ge> load_size
                    then Inr (Some idx, True, e_data e)
                    else Inr (Some idx, False, None))
                 else Inr acc)
             else Inr (Some idx, False, None))
          else Inr acc)"

partial_function (option) check_dependency_loop :: "LoadStoreQueue \<Rightarrow> int \<Rightarrow> int option \<Rightarrow> int
    \<Rightarrow> int \<Rightarrow> dep_acc \<Rightarrow> (py_error + dep_acc) option" where
  "check_dependency_loop q load_idx load_addr load_size idx acc =
     (if idx = load_idx then Some (Inr acc)
      else
        (case py_get (lsq_entries q) idx of
           Inl err \<Rightarrow> Some (Inl err)
         | Inr entry \<Rightarrow>
             (case check_dependency_body entry load_addr load_size idx acc of
                Inl err \<Rightarrow> Some (Inl err)
              | Inr acc' \<Rightarrow>
                  (case py_mod (idx + 1) (lsq_capacity q) of
                     Inl err \<Rightarrow> Some (Inl err)
                   | Inr idx' \<Rightarrow>
                       check_dependency_loop q load_idx load_addr load_size idx' acc'))))"

declare check_dependency_loop.simps [code]

text \<open>\<open>check_dependency(load_idx)\<close>: the queue after the call and the returned triple
  \<open>(has_conflict, forwarding_idx, forwarding_data)\<close>.\<close>

definition check_dependency :: "LoadStoreQueue \<Rightarrow> int
    \<Rightarrow> (py_error + (LoadStoreQueue \<times> (bool \<times> int option \<times> int option))) option" where
  "check_dependency q load_idx =
     (case py_get (lsq_entries q) load_idx of
        Inl err \<Rightarrow> Some (Inl err)
      | Inr None \<Rightarrow> Some (Inr (q, (False, None, None)))
      | Inr (Some load_entry) \<Rightarrow>
          if \<not> e_address_valid load_entry then Some (Inr (q, (False, None, None)))
          else
            dbind (check_dependency_loop q load_idx (e_address load_entry) (e_size load_entry)
                     (lsq_head q) (None, False, None))
              (\<lambda>(latest_conflict_idx, can_forward, forward_data).
                 Some (Inr (q, (latest_conflict_idx \<noteq> None,
                                (if can_forward then latest_conflict_idx else None),
                                forward_data)))))"

definition lsq_commit_head :: "LoadStoreQueue \<Rightarrow> py_error + (LoadStoreQueue \<times> LSQEntry option)" where
  "lsq_commit_head q =
     (if lsq_is_empty q then Inr (q, None)
      else
        ebind (py_get (lsq_entries q) (lsq_head q)) (\<lambda>entry.
        ebind (py_set (lsq_entries q) (lsq_head q) None) (\<lambda>es.
        ebind (py_mod (lsq_head q + 1) (lsq_capacity q)) (\<lambda>h.
          Inr (q\<lparr>lsq_entries := es, lsq_head := h, lsq_size := lsq_size q - 1\<rparr>,
               map_option (\<lambda>e. e\<lparr>e_committed := True\<rparr>) entry)))))"

text \<open>The inner loop of \<open>squash_from\<close>: \<open>while idx != self.tail\<close>, then \<open>self.tail = idx\<close>.\<close>

partial_function (option) lsq_squash_loop :: "LoadStoreQueue \<Rightarrow> int
    \<Rightarrow> (py_error + LoadStoreQueue) option" where
  "lsq_squash_loop q idx =
     (if idx = lsq_tail q then Some (Inr (q\<lparr>lsq_tail := idx\<rparr>))
      else
        (case py_get (lsq_entries q) idx of
           Inl err \<Rightarrow> Some (Inl err)
         | Inr entry \<Rightarrow>
             (case (if entry \<noteq> None
                    then ebind (py_set (lsq_entries q) idx None) (\<lambda>es.
                           Inr (q\<lparr>lsq_entries := es, lsq_size := lsq_size q - 1\<rparr>))
                    else Inr q) of
                Inl err \<Rightarrow> Some (Inl err)
              | Inr q' \<Rightarrow>
                  (case py_mod (idx + 1) (lsq_capacity q') of
                     Inl err \<Rightarrow> Some (Inl err)
                   | Inr idx' \<Rightarrow> lsq_squash_loop q' idx'))))"

declare lsq_squash_loop.simps [code]

text \<open>The outer loop, \<open>for _ in range(self.size)\<close>, with \<open>n\<close> rounds left.\<close>

fun lsq_squash_scan :: "nat \<Rightarrow> LoadStoreQueue \<Rightarrow> int \<Rightarrow> int option
    \<Rightarrow> (py_error + LoadStoreQueue) option" where
  "lsq_squash_scan 0 q idx seq = Some (Inr q)"
| "lsq_squash_scan (Suc n) q idx seq =
     (case py_get (lsq_entries q) idx of
        Inl err \<Rightarrow> Some (Inl err)
      | Inr entry \<Rightarrow>
          (case (case entry of None \<Rightarrow> Inr False
                 | Some e \<Rightarrow> py_ge (Some (e_seq_num e)) seq) of
             Inl err \<Rightarrow> Some (Inl err)
           | Inr True \<Rightarrow> lsq_squash_loop q idx
           | Inr False \<Rightarrow>
               (case py_mod (idx + 1) (lsq_capacity q) of
                  Inl err \<Rightarrow> Some (Inl err)
                | Inr idx' \<Rightarrow> lsq_squash_scan n q idx' seq)))"

definition lsq_squash_from :: "LoadStoreQueue \<Rightarrow> int option \<Rightarrow> (py_error + LoadStoreQueue) option" where
  "lsq_squash_from q seq = lsq_squash_scan (nat (lsq_size q)) q (lsq_head q) seq"


section \<open>pipeline.py: Instruction, ReorderBuffer, Pipeline\<close>

datatype InstructionType = LOAD | STORE | ALU | BRANCH | FENCE

record Instruction =
  i_pc :: int
  i_instr_type :: InstructionType
  i_dst_reg :: "int option"
  i_src_regs :: "int list"
  i_immediate :: int
  i_seq_num :: "int option"
  i_lsq_idx :: "int option"
  i_address :: "int option"
  i_data :: "int option"
  i_issued :: bool
  i_executed :: bool
  i_completed :: bool
  i_committed :: bool
  i_speculative :: bool

definition Instruction_init :: "int \<Rightarrow> InstructionType \<Rightarrow> int option \<Rightarrow> int list option
    \<Rightarrow> int option \<Rightarrow> Instruction" where
  "Instruction_init pc ty dst srcs imm =
     \<lparr>i_pc = pc, i_instr_type = ty, i_dst_reg = dst,
      i_src_regs = (case srcs of None \<Rightarrow> [] | Some l \<Rightarrow> l),
      i_immediate = (case imm of None \<Rightarrow> 0 | Some n \<Rightarrow> n),
      i_seq_num = None, i_lsq_idx = None, i_address = None, i_data = None,
      i_issued = False, i_executed = False, i_completed = False, i_committed = False,
      i_speculative = False\<rparr>"

text \<open>
  Instruction objects are mutable and shared: the caller, the instruction stream and the
  slots of the reorder buffer refer to the same object. The model keeps the objects in a
  store (\<open>nat \<Rightarrow> Instruction\<close>, an object's reference is its \<open>nat\<close>) and the reorder buffer
  holds references.
\<close>

type_synonym ref = nat
type_synonym instr_store = "ref \<Rightarrow> Instruction"

record ReorderBuffer =
  rob_capacity :: int
  rob_entries :: "ref option list"
  rob_head :: int
  rob_tail :: int
  rob_size :: int

definition ReorderBuffer_init :: "int \<Rightarrow> ReorderBuffer" where
  "ReorderBuffer_init cap =
     \<lparr>rob_capacity = cap, rob_entries = replicate (nat cap) None,
      rob_head = 0, rob_tail = 0, rob_size = 0\<rparr>"

definition rob_is_full :: "ReorderBuffer \<Rightarrow> bool" where
  "rob_is_full r = (rob_size r \<ge> rob_capacity r)"

definition rob_is_empty :: "ReorderBuffer \<Rightarrow> bool" where
  "rob_is_empty r = (rob_size r = 0)"

definition rob_allocate :: "ReorderBuffer \<Rightarrow> ref \<Rightarrow> py_error + (ReorderBuffer \<times> int option)" where
  "rob_allocate r instr =
     (if rob_is_full r then Inr (r, None)
      else
        ebind (py_set (rob_entries r) (rob_tail r) (Some instr)) (\<lambda>es.
        ebind (py_mod (rob_tail r + 1) (rob_capacity r)) (\<lambda>t.
          Inr (r\<lparr>rob_entries := es, rob_tail := t, rob_size := rob_size r + 1\<rparr>,
               Some (rob_tail r)))))"

definition rob_commit_head :: "ReorderBuffer \<Rightarrow> instr_store
    \<Rightarrow> py_error + (ReorderBuffer \<times> instr_store \<times> ref option)" where
  "rob_commit_head r h =
     (if rob_is_empty r then Inr (r, h, None)
      else
        ebind (py_get (rob_entries r) (rob_head r)) (\<lambda>entry.
          case entry of
            None \<Rightarrow> Inr (r, h, None)
          | Some instr \<Rightarrow>
              if i_completed (h instr) then
                ebind (py_set (rob_entries r) (rob_head r) None) (\<lambda>es.
                ebind (py_mod (rob_head r + 1) (rob_capacity r)) (\<lambda>hd'.
                  Inr (r\<lparr>rob_entries := es, rob_head := hd', rob_size := rob_size r - 1\<rparr>,
                       h(instr := (h instr)\<lparr>i_committed := True\<rparr>),
                       Some instr)))
              else Inr (r, h, None)))"

partial_function (option) rob_squash_loop :: "ReorderBuffer \<Rightarrow> int
    \<Rightarrow> (py_error + ReorderBuffer) option" where
  "rob_squash_loop r idx =
     (if idx = rob_tail r then Some (Inr (r\<lparr>rob_tail := idx\<rparr>))
      else
        (case py_get (rob_entries r) idx of
           Inl err \<Rightarrow> Some (Inl err)
         | Inr entry \<Rightarrow>
             (case py_set (rob_entries r) idx None of
                Inl err \<Rightarrow> Some (Inl err)
              | Inr es \<Rightarrow>
                  (case py_mod (idx + 1) (rob_capacity r) of
                     Inl err \<Rightarrow> Some (Inl err)
                   | Inr idx' \<Rightarrow>
                       rob_squash_loop
                         (r\<lparr>rob_entries := es,
                            rob_size := (if entry \<noteq> None then rob_size r - 1 else rob_size r)\<rparr>)
                         idx'))))"

declare rob_squash_loop.simps [code]

fun rob_squash_scan :: "nat \<Rightarrow> ReorderBuffer \<Rightarrow> instr_store \<Rightarrow> int \<Rightarrow> int option
    \<Rightarrow> (py_error + ReorderBuffer) option" where
  "rob_squash_scan 0 r h idx seq = Some (Inr r)"
| "rob_squash_scan (Suc n) r h idx seq =
     (case py_get (rob_entries r) idx of
        Inl err \<Rightarrow> Some (Inl err)
      | Inr entry \<Rightarrow>
          (case (case entry of None \<Rightarrow> Inr False
                 | Some instr \<Rightarrow> py_ge (i_seq_num (h instr)) seq) of
             Inl err \<Rightarrow> Some (Inl err)
           | Inr True \<Rightarrow> rob_squash_loop r idx
           | Inr False \<Rightarrow>
               (case py_mod (idx + 1) (rob_capacity r) of
                  Inl err \<Rightarrow> Some (Inl err)
                | Inr idx' \<Rightarrow> rob_squash_scan n r h idx' seq)))"

definition rob_squash_from :: "ReorderBuffer \<Rightarrow> instr_store \<Rightarrow> int option
    \<Rightarrow> (py_error + ReorderBuffer) option" where
  "rob_squash_from r h seq = rob_squash_scan (nat (rob_size r)) r h (rob_head r) seq"

text \<open>
  The pipeline. A register or a memory cell holds whatever object was assigned to it, so
  both hold \<open>int option\<close>; the memory is a dictionary, keyed by the value of the
  \<open>address\<close> attribute of the instruction that wrote. \<open>heap\<close> is the store of the
  Instruction objects.
\<close>

record Pipeline =
  rob :: ReorderBuffer
  lsq :: LoadStoreQueue
  predictor :: StoreSetPredictor
  registers :: "int option list"
  memory :: "int option \<rightharpoonup> int option"
  next_seq_num :: int
  cycle :: int
  pipeline_pc :: int
  instructions_committed :: int
  loads_executed :: int
  stores_executed :: int
  speculation_violations :: int
  forwarding_events :: int
  heap :: instr_store

definition Pipeline_init :: "int \<Rightarrow> int \<Rightarrow> instr_store \<Rightarrow> Pipeline" where
  "Pipeline_init rob_sz lsq_sz h =
     \<lparr>rob = ReorderBuffer_init rob_sz, lsq = LoadStoreQueue_init lsq_sz,
      predictor = StoreSetPredictor_init 256 64,
      registers = replicate 32 (Some 0), memory = Map.empty,
      next_seq_num = 0, cycle = 0, pipeline_pc = 0, instructions_committed = 0,
      loads_executed = 0, stores_executed = 0, speculation_violations = 0,
      forwarding_events = 0, heap = h\<rparr>"

definition issue_instruction :: "Pipeline \<Rightarrow> ref \<Rightarrow> py_error + (Pipeline \<times> bool)" where
  "issue_instruction s instr =
     (if rob_is_full (rob s) then Inr (s, False)
      else
        ebind (rob_allocate (rob s) instr) (\<lambda>(r', rob_idx).
          let s1 = s\<lparr>rob := r'\<rparr> in
          if rob_idx = None then Inr (s1, False)
          else
            let seq = next_seq_num s1;
                s2 = s1\<lparr>heap := (heap s1)(instr := (heap s1 instr)\<lparr>i_seq_num := Some seq\<rparr>),
                        next_seq_num := next_seq_num s1 + 1\<rparr>;
                ty = i_instr_type (heap s2 instr)
            in
              if ty = LOAD \<or> ty = STORE then
                ebind (lsq_allocate (lsq s2) seq (i_pc (heap s2 instr))
                         (if ty = LOAD then Op_LOAD else Op_STORE) 4) (\<lambda>(q', lsq_idx).
                  let s3 = s2\<lparr>lsq := q'\<rparr> in
                  if lsq_idx = None then Inr (s3, False)
                  else
                    let s4 = s3\<lparr>heap := (heap s3)(instr := (heap s3 instr)\<lparr>i_lsq_idx := lsq_idx\<rparr>)\<rparr>
                    in ebind (if ty = STORE
                              then ebind (register_store (predictor s4) (i_pc (heap s4 instr)) seq)
                                     (\<lambda>p'. Inr (s4\<lparr>predictor := p'\<rparr>))
                              else Inr s4) (\<lambda>s5.
                         Inr (s5\<lparr>heap := (heap s5)(instr := (heap s5 instr)\<lparr>i_issued := True\<rparr>)\<rparr>,
                              True)))
              else
                Inr (s2\<lparr>heap := (heap s2)(instr := (heap s2 instr)\<lparr>i_issued := True\<rparr>)\<rparr>, True)))"


text \<open>Assignment to attributes of the Instruction object \<open>instr\<close>.\<close>

definition set_instr :: "Pipeline \<Rightarrow> ref \<Rightarrow> (Instruction \<Rightarrow> Instruction) \<Rightarrow> Pipeline" where
  "set_instr s instr f = s\<lparr>heap := (heap s)(instr := f (heap s instr))\<rparr>"

text \<open>\<open>sum(self.registers[r] for r in instr.src_regs)\<close>, from the left, starting at 0.\<close>

fun sum_regs :: "int option list \<Rightarrow> int list \<Rightarrow> int \<Rightarrow> py_error + int" where
  "sum_regs regs [] acc = Inr acc"
| "sum_regs regs (r # rs) acc =
     ebind (py_get regs r) (\<lambda>v. ebind (py_add (Some acc) v) (\<lambda>acc'. sum_regs regs rs acc'))"

text \<open>\<open>if instr.dst_reg is not None: self.registers[instr.dst_reg] = v\<close>\<close>

definition write_dst :: "Pipeline \<Rightarrow> int option \<Rightarrow> int option \<Rightarrow> py_error + Pipeline" where
  "write_dst s dst v =
     (case dst of
        None \<Rightarrow> Inr s
      | Some d \<Rightarrow> ebind (py_set (registers s) d v) (\<lambda>regs. Inr (s\<lparr>registers := regs\<rparr>)))"

text \<open>The ALU branch of \<open>execute_instruction\<close>.\<close>

definition execute_alu :: "Pipeline \<Rightarrow> ref \<Rightarrow> py_error + (Pipeline \<times> bool)" where
  "execute_alu s instr =
     (let I = heap s instr in
      ebind (sum_regs (registers s) (i_src_regs I) 0) (\<lambda>sm.
        let result = sm + i_immediate I in
        ebind (write_dst s (i_dst_reg I) (Some result)) (\<lambda>s1.
          Inr (set_instr s1 instr (\<lambda>I. I\<lparr>i_executed := True, i_completed := True\<rparr>), True))))"

definition execute_load :: "Pipeline \<Rightarrow> ref \<Rightarrow> (py_error + (Pipeline \<times> bool)) option" where
  "execute_load s instr =
     (let I = heap s instr in
      dbind (Some (case i_src_regs I of [] \<Rightarrow> Inr (Some 0) | r # _ \<Rightarrow> py_get (registers s) r))
        (\<lambda>base_addr.
      dbind (Some (py_add base_addr (Some (i_immediate I)))) (\<lambda>addr.
        let s1 = set_instr s instr (\<lambda>I. I\<lparr>i_address := Some addr\<rparr>) in
      dbind (Some (case i_lsq_idx I of
                     None \<Rightarrow> Inr s1
                   | Some li \<Rightarrow> ebind (update_address (lsq s1) li addr)
                                 (\<lambda>q. Inr (s1\<lparr>lsq := q\<rparr>)))) (\<lambda>s2.
      dbind (case i_lsq_idx I of
               None \<Rightarrow> Some (Inl TypeError)
             | Some li \<Rightarrow> check_dependency (lsq s2) li) (\<lambda>(q', has_dep, fwd_idx, fwd_data).
        let s3 = s2\<lparr>lsq := q'\<rparr> in
        if fwd_data \<noteq> None then
          Some (ebind (write_dst (set_instr s3 instr (\<lambda>I. I\<lparr>i_data := fwd_data\<rparr>))
                         (i_dst_reg I) fwd_data) (\<lambda>s4.
                  Inr (set_instr (s4\<lparr>forwarding_events := forwarding_events s4 + 1,
                                     loads_executed := loads_executed s4 + 1\<rparr>) instr
                         (\<lambda>I. I\<lparr>i_executed := True, i_completed := True\<rparr>), True)))
        else
          dbind (Some (predict_load (predictor s3) (i_pc I))) (\<lambda>(p', can_speculate, wait_seq).
            let s4 = s3\<lparr>predictor := p'\<rparr> in
            if \<not> can_speculate \<or> has_dep then Some (Inr (s4, False))
            else
              let data = (case memory s4 (Some addr) of None \<Rightarrow> Some 0 | Some v \<Rightarrow> v) in
              dbind (Some (write_dst (set_instr s4 instr (\<lambda>I. I\<lparr>i_data := data\<rparr>))
                             (i_dst_reg I) data)) (\<lambda>s5.
                let s6 = set_instr s5 instr
                           (\<lambda>I. I\<lparr>i_speculative := True, i_executed := True, i_completed := True\<rparr>)
                in
                dbind (Some (case i_lsq_idx I of
                               None \<Rightarrow> Inr s6
                             | Some li \<Rightarrow>
                                 ebind (mark_speculative (lsq s6) li) (\<lambda>q1.
                                 ebind (mark_completed q1 li) (\<lambda>q2. Inr (s6\<lparr>lsq := q2\<rparr>)))))
                  (\<lambda>s7. Some (Inr (s7\<lparr>loads_executed := loads_executed s7 + 1\<rparr>, True))))))))))"

definition execute_store :: "Pipeline \<Rightarrow> ref \<Rightarrow> py_error + (Pipeline \<times> bool)" where
  "execute_store s instr =
     (let I = heap s instr in
      ebind (case i_src_regs I of [] \<Rightarrow> Inr (Some 0) | r # _ \<Rightarrow> py_get (registers s) r)
        (\<lambda>base_addr.
      ebind (py_add base_addr (Some (i_immediate I))) (\<lambda>addr.
        let s1 = set_instr s instr (\<lambda>I. I\<lparr>i_address := Some addr\<rparr>);
            data_reg = (case i_src_regs I of _ # r1 # _ \<Rightarrow> r1 | _ \<Rightarrow> 0)
        in
      ebind (py_get (registers s1) data_reg) (\<lambda>d.
        let s2 = set_instr s1 instr (\<lambda>I. I\<lparr>i_data := d\<rparr>) in
      ebind (case i_lsq_idx I of
               None \<Rightarrow> Inr s2
             | Some li \<Rightarrow>
                 ebind (update_address (lsq s2) li addr) (\<lambda>q1.
                 ebind (update_data q1 li d) (\<lambda>q2.
                 ebind (mark_completed q2 li) (\<lambda>q3. Inr (s2\<lparr>lsq := q3\<rparr>))))) (\<lambda>s3.
        Inr (set_instr (s3\<lparr>stores_executed := stores_executed s3 + 1\<rparr>) instr
               (\<lambda>I. I\<lparr>i_executed := True, i_completed := True\<rparr>), True))))))"

definition execute_instruction :: "Pipeline \<Rightarrow> ref \<Rightarrow> (py_error + (Pipeline \<times> bool)) option" where
  "execute_instruction s instr =
     (let I = heap s instr in
      if \<not> i_issued I \<or> i_executed I then Some (Inr (s, False))
      else if i_instr_type I = ALU then Some (execute_alu s instr)
      else if i_instr_type I = LOAD then execute_load s instr
      else if i_instr_type I = STORE then Some (execute_store s instr)
      else Some (Inr (s, False)))"

definition validate_load :: "Pipeline \<Rightarrow> ref \<Rightarrow> (py_error + (Pipeline \<times> bool)) option" where
  "validate_load s load_instr =
     (let I = heap s load_instr in
      case i_lsq_idx I of
        None \<Rightarrow> Some (Inr (s, False))
      | Some li \<Rightarrow>
          dbind (check_dependency (lsq s) li) (\<lambda>(q', has_dep, fwd_idx, fwd_data).
            let s1 = s\<lparr>lsq := q'\<rparr> in
            if fwd_data \<noteq> None \<and> i_data I \<noteq> fwd_data then Some (Inr (s1, True))
            else Some (Inr (s1, False))))"

definition recover_from_violation :: "(int set \<Rightarrow> int) \<Rightarrow> Pipeline \<Rightarrow> ref
    \<Rightarrow> (py_error + Pipeline) option" where
  "recover_from_violation set_pop s violating_instr =
     (let I = heap s violating_instr in
      dbind (case i_lsq_idx I of
               None \<Rightarrow> Some (Inr s)
             | Some li \<Rightarrow>
                 dbind (check_dependency (lsq s) li) (\<lambda>(q', has_dep, fwd_idx, _).
                   let s1 = s\<lparr>lsq := q'\<rparr> in
                   case fwd_idx of
                     None \<Rightarrow> Some (Inr s1)
                   | Some fi \<Rightarrow>
                       if has_dep then
                         Some (ebind (py_get (lsq_entries (lsq s1)) fi) (\<lambda>store_entry.
                           case store_entry of
                             None \<Rightarrow> Inr s1
                           | Some e \<Rightarrow>
                               ebind (report_violation set_pop (predictor s1) (i_pc I) (e_pc e))
                                 (\<lambda>p'. Inr (s1\<lparr>predictor := p'\<rparr>))))
                       else Some (Inr s1))) (\<lambda>s2.
      dbind (rob_squash_from (rob s2) (heap s2) (i_seq_num I)) (\<lambda>r'.
      dbind (lsq_squash_from (lsq s2) (i_seq_num I)) (\<lambda>q'.
        Some (Inr (s2\<lparr>rob := r', lsq := q', pipeline_pc := i_pc I\<rparr>))))))"

definition commit_instruction :: "(int set \<Rightarrow> int) \<Rightarrow> Pipeline
    \<Rightarrow> (py_error + (Pipeline \<times> ref option)) option" where
  "commit_instruction set_pop s =
     dbind (Some (rob_commit_head (rob s) (heap s))) (\<lambda>(r', h', res).
       let s1 = s\<lparr>rob := r', heap := h'\<rparr> in
       case res of
         None \<Rightarrow> Some (Inr (s1, None))
       | Some instr \<Rightarrow>
           let I = heap s1 instr in
           dbind (if i_instr_type I = LOAD \<and> i_speculative I then
                    dbind (validate_load s1 instr) (\<lambda>(s2, violation).
                      if violation then
                        dbind (recover_from_violation set_pop
                                 (s2\<lparr>speculation_violations := speculation_violations s2 + 1\<rparr>)
                                 instr)
                          (\<lambda>s3. Some (Inr (s3, True)))
                      else
                        Some (Inr (s2\<lparr>predictor :=
                                         report_correct_speculation (predictor s2) (i_pc I)\<rparr>,
                                   False)))
                  else Some (Inr (s1, False))) (\<lambda>(s4, violated).
             if violated then Some (Inr (s4, None))
             else
               dbind (Some (if i_instr_type I = STORE then
                              ebind (clear_store (predictor s4) (i_pc I)) (\<lambda>p'.
                                Inr (s4\<lparr>memory := (memory s4)(i_address I \<mapsto> i_data I),
                                        predictor := p'\<rparr>))
                            else Inr s4)) (\<lambda>s5.
                 Some (Inr (s5\<lparr>instructions_committed := instructions_committed s5 + 1\<rparr>,
                            Some instr)))))"

text \<open>\<open>cycle_step(instruction_stream)\<close>: the pipeline and the stream after the call.\<close>

definition cycle_step :: "(int set \<Rightarrow> int) \<Rightarrow> Pipeline \<Rightarrow> ref list
    \<Rightarrow> (py_error + (Pipeline \<times> ref list)) option" where
  "cycle_step set_pop s instruction_stream =
     (let s1 = s\<lparr>cycle := cycle s + 1\<rparr> in
      dbind (commit_instruction set_pop s1) (\<lambda>(s2, _).
        case instruction_stream of
          [] \<Rightarrow> Some (Inr (s2, instruction_stream))
        | next_instr # rest \<Rightarrow>
            if \<not> rob_is_full (rob s2) then
              dbind (Some (issue_instruction s2 next_instr)) (\<lambda>(s3, ok).
                Some (Inr (s3, if ok then rest else instruction_stream)))
            else Some (Inr (s2, instruction_stream))))"


text \<open>A sequence of calls of the pipeline's public operations, from the left; the returned
  values are dropped.\<close>

datatype cmd = Issue ref | Execute ref | Commit | CycleStep "ref list"

fun pipe_step :: "(int set \<Rightarrow> int) \<Rightarrow> Pipeline \<Rightarrow> cmd \<Rightarrow> (py_error + Pipeline) option" where
  "pipe_step set_pop s (Issue i) =
     dbind (Some (issue_instruction s i)) (\<lambda>(s', _). Some (Inr s'))"
| "pipe_step set_pop s (Execute i) =
     dbind (execute_instruction s i) (\<lambda>(s', _). Some (Inr s'))"
| "pipe_step set_pop s Commit =
     dbind (commit_instruction set_pop s) (\<lambda>(s', _). Some (Inr s'))"
| "pipe_step set_pop s (CycleStep stream) =
     dbind (cycle_step set_pop s stream) (\<lambda>(s', _). Some (Inr s'))"

fun pipe_run :: "(int set \<Rightarrow> int) \<Rightarrow> Pipeline \<Rightarrow> cmd list \<Rightarrow> (py_error + Pipeline) option" where
  "pipe_run set_pop s [] = Some (Inr s)"
| "pipe_run set_pop s (c # cs) = dbind (pipe_step set_pop s c) (\<lambda>s'. pipe_run set_pop s' cs)"

text \<open>The program of the module's self-test, preceded by two ALU instructions that load
  the base address and the datum: \<open>R1 = 0x1000\<close>, \<open>R2 = 0xDEAD\<close>, \<open>ST R2 -> [R1+0]\<close>,
  \<open>LD [R1+0] -> R3\<close>, as the objects 0 to 3.\<close>

definition example_program :: instr_store where
  "example_program =
     (\<lambda>_. Instruction_init 0 ALU None None None)
       (0 := Instruction_init 0x0FF8 ALU (Some 1) None (Some 0x1000),
        1 := Instruction_init 0x0FFC ALU (Some 2) None (Some 0xDEAD),
        2 := Instruction_init 0x1000 STORE None (Some [1, 2]) (Some 0),
        3 := Instruction_init 0x1004 LOAD (Some 3) (Some [1]) (Some 0))"


section \<open>Well-formed rings\<close>

text \<open>The shape the constructor gives a queue and every operation keeps: a positive
  capacity, as many slots as the capacity, head and tail inside the ring.\<close>

definition lsq_wf :: "LoadStoreQueue \<Rightarrow> bool" where
  "lsq_wf q = (0 < lsq_capacity q \<and> int (length (lsq_entries q)) = lsq_capacity q
      \<and> 0 \<le> lsq_head q \<and> lsq_head q < lsq_capacity q
      \<and> 0 \<le> lsq_tail q \<and> lsq_tail q < lsq_capacity q)"




section \<open>Properties of the atomic operations\<close>

text \<open>
  Claim C9. A compare-and-swap \<open>execute(v, w, expected=e)\<close> succeeds exactly when \<open>e\<close> is
  given and equals the memory value \<open>v\<close>; it returns \<open>v\<close> in both cases; on success the
  new value is \<open>w\<close>, on failure \<open>new_value\<close> keeps what it held. In particular
  \<open>execute(v, w, expected=v)\<close> returns \<open>(True, v)\<close> and \<open>execute(v, w, expected=v')\<close> with
  \<open>v' \<noteq> v\<close> returns \<open>(False, v)\<close>.
\<close>

theorem cas_execute:
  assumes "a_op_type a = ''CAS''"
  shows "fst (snd (execute a v w e)) = (e = Some v)
       \<and> snd (snd (execute a v w e)) = v
       \<and> a_new_value (fst (execute a v w e)) = (if e = Some v then Some w else a_new_value a)
       \<and> snd (execute a v w (Some v)) = (True, v)
       \<and> (\<forall>v'. v' \<noteq> v \<longrightarrow> snd (execute a v w (Some v')) = (False, v))"
  using assms by (auto simp: execute_def Let_def split: option.splits)

theorem cas_execute_witness:
  "snd (execute (AtomicOperation_init ''CAS'' 16 1) 5 9 (Some 5)) = (True, 5)
   \<and> a_new_value (fst (execute (AtomicOperation_init ''CAS'' 16 1) 5 9 (Some 5))) = Some 9
   \<and> snd (execute (AtomicOperation_init ''CAS'' 16 1) 5 9 (Some 6)) = (False, 5)
   \<and> a_new_value (fst (execute (AtomicOperation_init ''CAS'' 16 1) 5 9 (Some 6))) = None
   \<and> snd (execute (AtomicOperation_init ''CAS'' 16 1) 5 9 None) = (False, 5)"
  using cas_execute [of "AtomicOperation_init ''CAS'' 16 1" 5 9 "Some 6"]
        cas_execute [of "AtomicOperation_init ''CAS'' 16 1" 5 9 "Some 5"]
        cas_execute [of "AtomicOperation_init ''CAS'' 16 1" 5 9 None]
  by (simp add: AtomicOperation_init_def prod_eq_iff)


section \<open>Properties of the store-set predictor\<close>

text \<open>
  Claim C4, as the code has it. For a load PC whose SSIT entry maps to a store set with an
  entry in the LFST, \<open>predict_load\<close> counts the prediction and returns
  \<open>(False, seq)\<close> with the LFST's sequence number when the load's confidence counter is
  below 2; with a confidence of 2 or more it returns \<open>(True, None)\<close>, whatever the LFST
  holds.
\<close>

theorem predict_load_waits:
  assumes "get_ssit_index p load_pc = Inr idx"
    and "map_of (ssit p) idx = Some sid"
    and "map_of (lfst p) sid = Some seq"
  shows "predict_load p load_pc =
           Inr (p\<lparr>predictions := predictions p + 1\<rparr>,
                if confidence p load_pc < 2 then (False, Some seq) else (True, None))"
  using assms by (simp add: predict_load_def get_ssit_index_def ebind_def Let_def)

text \<open>The spec's scenario: after \<open>report_violation(0x304, 0x300)\<close> and
  \<open>register_store(0x300, seq=1)\<close>, \<open>predict_load(0x304)\<close> returns \<open>(False, 1)\<close>.\<close>

theorem predict_load_waits_witness:
  "case pred_run Min (StoreSetPredictor_init 256 64)
            [ReportViolation 0x304 0x300, RegisterStore 0x300 1] of
     Inr p \<Rightarrow> predict_load p 0x304 = Inr (p\<lparr>predictions := predictions p + 1\<rparr>, (False, Some 1))
   | Inl _ \<Rightarrow> False"
proof -
  define r where "r = pred_run Min (StoreSetPredictor_init 256 64)
            [ReportViolation 0x304 0x300, RegisterStore 0x300 1]"
  have ok: "isl r = False" unfolding r_def by code_simp
  have a: "get_ssit_index (projr r) 0x304 = Inr 193" unfolding r_def by code_simp
  have b: "map_of (ssit (projr r)) 193 = Some 0" unfolding r_def by code_simp
  have c: "map_of (lfst (projr r)) 0 = Some 1" unfolding r_def by code_simp
  have d: "confidence (projr r) 0x304 = 1" unfolding r_def by code_simp
  from ok have e: "r = Inr (projr r)" by (cases r) simp_all
  show ?thesis
    using predict_load_waits [OF a b c] d e unfolding r_def [symmetric]
    by (cases r) simp_all
qed

text \<open>The claim as stated fails: after one correct speculation the load's confidence is
  back at 2, and the load speculates although its set (id 0, SSIT index 193) has the
  in-flight store 1 in the LFST.\<close>

theorem predict_load_counterexample:
  "ebind (pred_run Min (StoreSetPredictor_init 256 64)
            [ReportViolation 0x304 0x300, ReportCorrectSpeculation 0x304, RegisterStore 0x300 1])
     (\<lambda>p. ebind (get_ssit_index p 0x304) (\<lambda>idx. ebind (predict_load p 0x304) (\<lambda>(p', r).
          Inr (idx, map_of (ssit p) idx, map_of (lfst p) 0, r))))
   = Inr (193, Some 0, Some 1, (True, None))"
  by code_simp

lemma delete_update: "AList.delete k (AList.update k v l) = AList.delete k l"
  by (induction l) auto

lemma delete_id_iff: "(AList.delete k l = l) = (map_of l k = None)"
  unfolding AList.delete_eq filter_id_conv map_of_eq_None_iff by force

text \<open>
  Claim C7, as the code has it. With a non-zero table size, \<open>register_store(pc, seq)\<close>
  followed by \<open>clear_store(pc)\<close> both return, and the LFST afterwards is the LFST before
  without the entry of the store's set. So the pair leaves the LFST as it was exactly when
  the store's PC maps to no set or its set had no LFST entry before the pair.
\<close>

theorem register_then_clear:
  assumes "ssit_size p \<noteq> 0"
  shows "\<exists>p1 p2. register_store p a seq = Inr p1 \<and> clear_store p1 a = Inr p2
           \<and> lfst p2 = (case map_of (ssit p) ((a div 4) mod ssit_size p) of
                           None \<Rightarrow> lfst p
                         | Some sid \<Rightarrow> AList.delete sid (lfst p))
           \<and> (case map_of (ssit p) ((a div 4) mod ssit_size p) of
                 None \<Rightarrow> lfst p2 = lfst p
               | Some sid \<Rightarrow> (lfst p2 = lfst p) = (map_of (lfst p) sid = None))"
proof (cases "map_of (ssit p) ((a div 4) mod ssit_size p)")
  case None
  with assms show ?thesis
    by (simp add: register_store_def clear_store_def get_ssit_index_def py_mod_def ebind_def)
next
  case (Some sid)
  have "(AList.delete sid (lfst p) = lfst p) = (map_of (lfst p) sid = None)"
    by (rule delete_id_iff)
  with Some assms show ?thesis
    by (simp add: register_store_def clear_store_def get_ssit_index_def py_mod_def ebind_def
        delete_update AList.update_conv')
qed

theorem register_then_clear_witness:
  "case pred_run Min (StoreSetPredictor_init 256 64) [ReportViolation 0x304 0x300] of
     Inr p \<Rightarrow> (\<exists>p1 p2. register_store p 0x300 7 = Inr p1 \<and> clear_store p1 0x300 = Inr p2
                 \<and> lfst p2 = lfst p)
   | Inl _ \<Rightarrow> False"
proof -
  define r where "r = pred_run Min (StoreSetPredictor_init 256 64) [ReportViolation 0x304 0x300]"
  have ok: "isl r = False" unfolding r_def by code_simp
  have a: "ssit_size (projr r) \<noteq> 0" unfolding r_def by code_simp
  have b: "map_of (ssit (projr r)) ((0x300 div 4) mod ssit_size (projr r)) = Some 0"
    unfolding r_def by code_simp
  have c: "map_of (lfst (projr r)) 0 = None" unfolding r_def by code_simp
  from ok have e: "r = Inr (projr r)" by (cases r) simp_all
  from register_then_clear [OF a, of "0x300" 7] b c
  have "\<exists>p1 p2. register_store (projr r) 0x300 7 = Inr p1 \<and> clear_store p1 0x300 = Inr p2
                 \<and> lfst p2 = lfst (projr r)"
    by auto
  with e show ?thesis unfolding r_def [symmetric] by (cases r) simp_all
qed

text \<open>The claim as stated fails when an earlier store of the same set is still in flight:
  the LFST holds \<open>{0: 5}\<close> before \<open>register_store(0x300, 7)\<close>, \<open>clear_store(0x300)\<close> and is
  empty after.\<close>

theorem register_then_clear_counterexample:
  "ebind (pred_run Min (StoreSetPredictor_init 256 64)
            [ReportViolation 0x304 0x300, RegisterStore 0x300 5])
     (\<lambda>p. ebind (register_store p 0x300 7) (\<lambda>p1. ebind (clear_store p1 0x300) (\<lambda>p2.
          Inr (lfst p, lfst p2, lfst p2 = lfst p))))
   = Inr ([(0, 5)], [], False)"
  by code_simp

text \<open>
  Claim C8 at its failing input. Two violations create the sets 0 (SSIT indices 0, 1) and
  1 (indices 2, 3); a store of set 1 is registered with sequence number 5; a violation
  between a load of set 0 and a store of set 1 merges set 1 into set 0. Afterwards the
  LFST still holds the entry of set 1, and no SSIT index maps to set 1.
\<close>

theorem merge_leaves_dangling_lfst:
  "ebind (pred_run Min (StoreSetPredictor_init 256 64)
            [ReportViolation 0x0 0x4, ReportViolation 0x8 0xC, RegisterStore 0xC 5,
             ReportViolation 0x0 0xC])
     (\<lambda>p. Inr (ssit p, lfst p, lfst_ids_in_ssit p))
   = Inr ([(0, 0), (1, 0), (2, 0), (3, 0)], [(1, 5)], False)"
  by code_simp


section \<open>Properties of the load-store queue\<close>

lemma py_get_in_range:
  "0 \<le> i \<Longrightarrow> i < int (length xs) \<Longrightarrow> py_get xs i = Inr (xs ! nat i)"
  by (simp add: py_get_def py_index_def)


lemma ring_step:
  fixes i t c :: int
  assumes "0 \<le> i" "i < c" "0 \<le> t" "t < c" "i \<noteq> t"
  shows "nat ((t - (i + 1) mod c) mod c) < nat ((t - i) mod c)"
proof -
  have c: "0 < c" using assms by linarith
  have 1: "(t - (i + 1) mod c) mod c = (t - i - 1) mod c"
    by (metis diff_diff_eq mod_diff_right_eq)
  have 2: "(t - i) mod c \<noteq> 0"
  proof
    assume "(t - i) mod c = 0"
    then have "c dvd (t - i)" by auto
    then obtain k where k: "t - i = c * k" by (auto simp: dvd_def)
    have "\<bar>t - i\<bar> < c" using assms by linarith
    with k c have "\<bar>k\<bar> < 1"
      by (metis abs_mult abs_of_pos mult.right_neutral mult_less_cancel_left_pos)
    then have "k = 0" by linarith
    with k assms show False by simp
  qed
  have 3: "0 \<le> (t - i) mod c" "(t - i) mod c < c" using c by simp_all
  have 4: "(t - i - 1) mod c = ((t - i) mod c - 1) mod c"
    by (simp add: mod_diff_left_eq)
  have 5: "((t - i) mod c - 1) mod c = (t - i) mod c - 1"
    using 2 3 by (intro mod_pos_pos_trivial) linarith+
  from 1 2 3 4 5 show ?thesis by linarith
qed

lemma check_dependency_loop_returns:
  assumes "lsq_wf q" "0 \<le> li" "li < lsq_capacity q" "0 \<le> idx" "idx < lsq_capacity q"
  shows "\<exists>res. check_dependency_loop q li la ls idx acc = Some res"
  using assms
proof (induction "nat ((li - idx) mod lsq_capacity q)" arbitrary: idx acc rule: less_induct)
  case less
  show ?case
  proof (cases "idx = li")
    case True
    then show ?thesis by (subst check_dependency_loop.simps) simp
  next
    case False
    have g: "py_get (lsq_entries q) idx = Inr (lsq_entries q ! nat idx)"
      using less.prems by (intro py_get_in_range) (auto simp: lsq_wf_def)
    have m: "py_mod (idx + 1) (lsq_capacity q) = Inr ((idx + 1) mod lsq_capacity q)"
      using less.prems by (simp add: py_mod_def lsq_wf_def)
    have c: "0 < lsq_capacity q" using less.prems by (simp add: lsq_wf_def)
    have lt: "nat ((li - (idx + 1) mod lsq_capacity q) mod lsq_capacity q)
                < nat ((li - idx) mod lsq_capacity q)"
      using less.prems False by (intro ring_step) auto
    have i': "0 \<le> (idx + 1) mod lsq_capacity q" "(idx + 1) mod lsq_capacity q < lsq_capacity q"
      using c by simp_all
    have r: "\<exists>res. check_dependency_loop q li la ls ((idx + 1) mod lsq_capacity q) acc' = Some res" for acc'
      using less.hyps [OF lt less.prems(1,2,3) i'] .
    show ?thesis
      using r False g m
      by (subst check_dependency_loop.simps) (auto split: sum.splits)
  qed
qed

text \<open>
  Claim C10. \<open>check_dependency\<close> is read-only: whenever a call returns, for any queue and
  any index, the queue after the call is the queue before it (every entry with all its
  fields, head, tail and size). And on a well-formed queue a call with an index inside the
  ring does come back (with a result or an exception).
\<close>

theorem check_dependency_read_only:
  "(check_dependency q i = Some (Inr (q', r)) \<longrightarrow> q' = q)
   \<and> (lsq_wf q \<and> 0 \<le> i \<and> i < lsq_capacity q \<longrightarrow> (\<exists>res. check_dependency q i = Some res))"
proof
  show "check_dependency q i = Some (Inr (q', r)) \<longrightarrow> q' = q"
    by (auto simp: check_dependency_def dbind_def split: sum.splits option.splits if_splits prod.splits)
next
  show "lsq_wf q \<and> 0 \<le> i \<and> i < lsq_capacity q \<longrightarrow> (\<exists>res. check_dependency q i = Some res)"
  proof
    assume a: "lsq_wf q \<and> 0 \<le> i \<and> i < lsq_capacity q"
    then have l: "\<exists>res. check_dependency_loop q i la ls (lsq_head q) acc = Some res" for la ls acc
      by (intro check_dependency_loop_returns) (auto simp: lsq_wf_def)
    show "\<exists>res. check_dependency q i = Some res"
    proof (cases "py_get (lsq_entries q) i")
      case (Inl e)
      then show ?thesis by (simp add: check_dependency_def)
    next
      case (Inr entry)
      show ?thesis
      proof (cases entry)
        case None
        with Inr show ?thesis by (simp add: check_dependency_def)
      next
        case (Some le)
        obtain res where "check_dependency_loop q i (e_address le) (e_size le) (lsq_head q)
            (None, False, None) = Some res"
          using l by blast
        with Inr Some show ?thesis
          by (cases res) (auto simp: check_dependency_def dbind_def split: prod.splits)
      qed
    qed
  qed
qed

theorem check_dependency_read_only_witness:
  "case ebind (lsq_allocate (LoadStoreQueue_init 8) 1 0x1000 Op_STORE 4) (\<lambda>(q1, _).
        ebind (update_address q1 0 0x2000) (\<lambda>q2.
        ebind (update_data q2 0 (Some 0xDEADBEEF)) (\<lambda>q3.
        ebind (lsq_allocate q3 2 0x1004 Op_LOAD 4) (\<lambda>(q4, _).
        update_address q4 1 0x2000)))) of
     Inr q \<Rightarrow> check_dependency q 1 = Some (Inr (q, (True, Some 0, Some 0xDEADBEEF)))
   | Inl _ \<Rightarrow> False"
proof -
  define r where "r = ebind (lsq_allocate (LoadStoreQueue_init 8) 1 0x1000 Op_STORE 4) (\<lambda>(q1, _).
        ebind (update_address q1 0 0x2000) (\<lambda>q2.
        ebind (update_data q2 0 (Some 0xDEADBEEF)) (\<lambda>q3.
        ebind (lsq_allocate q3 2 0x1004 Op_LOAD 4) (\<lambda>(q4, _).
        update_address q4 1 0x2000))))"
  have ok: "isl r = False" unfolding r_def by code_simp
  then have e: "r = Inr (projr r)" by (cases r) simp_all
  have wf: "lsq_wf (projr r) \<and> 0 \<le> (1::int) \<and> 1 < lsq_capacity (projr r)"
    unfolding r_def by code_simp
  have v: "map_option (map_sum id snd) (check_dependency (projr r) 1)
             = Some (Inr (True, Some 0, Some 0xDEADBEEF))"
    unfolding r_def by code_simp
  from check_dependency_read_only [of "projr r" 1] wf
  obtain res where res: "check_dependency (projr r) 1 = Some res" by blast
  with v obtain q' where q': "res = Inr (q', (True, Some 0, Some 0xDEADBEEF))"
    by (cases res) auto
  with res check_dependency_read_only [of "projr r" 1 q' "(True, Some 0, Some 0xDEADBEEF)"]
  have "q' = projr r" by simp
  with res q' e show ?thesis unfolding r_def [symmetric] by (cases r) simp_all
qed


section \<open>Properties of the pipeline\<close>

lemma ebind_Inr_iff: "(ebind m f = Inr y) = (\<exists>x. m = Inr x \<and> f x = Inr y)"
  by (cases m) (simp_all add: ebind_def)

lemma dbind_Inr_iff: "(dbind m f = Some (Inr y)) = (\<exists>x. m = Some (Inr x) \<and> f x = Some (Inr y))"
  by (cases m; simp add: dbind_def split: sum.splits)

lemma set_instr_simps [simp]:
  "memory (set_instr s i f) = memory s"
  "registers (set_instr s i f) = registers s"
  "lsq (set_instr s i f) = lsq s"
  "rob (set_instr s i f) = rob s"
  "predictor (set_instr s i f) = predictor s"
  "cycle (set_instr s i f) = cycle s"
  "loads_executed (set_instr s i f) = loads_executed s"
  "stores_executed (set_instr s i f) = stores_executed s"
  "forwarding_events (set_instr s i f) = forwarding_events s"
  "instructions_committed (set_instr s i f) = instructions_committed s"
  "speculation_violations (set_instr s i f) = speculation_violations s"
  "next_seq_num (set_instr s i f) = next_seq_num s"
  "pipeline_pc (set_instr s i f) = pipeline_pc s"
  "heap (set_instr s i f) = (heap s)(i := f (heap s i))"
  by (simp_all add: set_instr_def)







lemma check_dependency_same:
  "check_dependency q i = Some (Inr (q', r)) \<Longrightarrow> q' = q"
  by (auto simp: check_dependency_def dbind_def split: sum.splits option.splits if_splits prod.splits)

lemma validate_load_same:
  "validate_load s i = Some (Inr (s', v)) \<Longrightarrow> s' = s"
  by (auto simp: validate_load_def dbind_Inr_iff Let_def split: option.splits if_splits
      dest!: check_dependency_same)


lemma rob_commit_head_cases:
  assumes "rob_commit_head r h = Inr (r', h', res)"
  shows "(res = None \<and> r' = r \<and> h' = h)
       \<or> (\<exists>j. res = Some j \<and> i_completed (h j) \<and> h' = h(j := (h j)\<lparr>i_committed := True\<rparr>)
             \<and> py_get (rob_entries r) (rob_head r) = Inr (Some j)
             \<and> py_set (rob_entries r) (rob_head r) None = Inr (rob_entries r')
             \<and> py_mod (rob_head r + 1) (rob_capacity r) = Inr (rob_head r')
             \<and> rob_size r' = rob_size r - 1 \<and> rob_tail r' = rob_tail r
             \<and> rob_capacity r' = rob_capacity r \<and> rob_size r \<noteq> 0)"
  using assms
  by (auto simp: rob_commit_head_def ebind_Inr_iff rob_is_empty_def split: if_splits option.splits)



lemma commit_cases:
  assumes "commit_instruction sp s = Some (Inr (s', r))"
  shows "(r = None \<and> s' = s)
       \<or> (\<exists>j r1. r = Some j
            \<and> rob_commit_head (rob s) (heap s) = Inr (r1, (heap s)(j := (heap s j)\<lparr>i_committed := True\<rparr>), Some j)
            \<and> rob s' = r1 \<and> heap s' = (heap s)(j := (heap s j)\<lparr>i_committed := True\<rparr>)
            \<and> lsq s' = lsq s \<and> registers s' = registers s \<and> cycle s' = cycle s
            \<and> loads_executed s' = loads_executed s \<and> stores_executed s' = stores_executed s
            \<and> forwarding_events s' = forwarding_events s
            \<and> speculation_violations s' = speculation_violations s
            \<and> instructions_committed s' = instructions_committed s + 1
            \<and> next_seq_num s' = next_seq_num s
            \<and> memory s' = (if i_instr_type (heap s j) = STORE
                            then (memory s)(i_address (heap s j) \<mapsto> i_data (heap s j))
                            else memory s)
            \<and> (if i_instr_type (heap s j) = LOAD \<and> i_speculative (heap s j)
                then validate_load (s\<lparr>rob := r1, heap := (heap s)(j := (heap s j)\<lparr>i_committed := True\<rparr>)\<rparr>) j
                       = Some (Inr (s\<lparr>rob := r1, heap := (heap s)(j := (heap s j)\<lparr>i_committed := True\<rparr>)\<rparr>, False))
                     \<and> predictor s' = report_correct_speculation (predictor s) (i_pc (heap s j))
                else if i_instr_type (heap s j) = STORE
                then clear_store (predictor s) (i_pc (heap s j)) = Inr (predictor s')
                else predictor s' = predictor s))
       \<or> (\<exists>j r1. r = None \<and> i_instr_type (heap s j) = LOAD \<and> i_speculative (heap s j)
            \<and> rob_commit_head (rob s) (heap s) = Inr (r1, (heap s)(j := (heap s j)\<lparr>i_committed := True\<rparr>), Some j)
            \<and> validate_load (s\<lparr>rob := r1, heap := (heap s)(j := (heap s j)\<lparr>i_committed := True\<rparr>)\<rparr>) j
                  = Some (Inr (s\<lparr>rob := r1, heap := (heap s)(j := (heap s j)\<lparr>i_committed := True\<rparr>)\<rparr>, True))
            \<and> recover_from_violation sp
                  (s\<lparr>rob := r1, heap := (heap s)(j := (heap s j)\<lparr>i_committed := True\<rparr>),
                     speculation_violations := speculation_violations s + 1\<rparr>) j = Some (Inr s'))"
proof -
  from assms obtain r1 h1 res where
    c: "rob_commit_head (rob s) (heap s) = Inr (r1, h1, res)"
    by (auto simp: commit_instruction_def dbind_Inr_iff)
  show ?thesis
  proof (cases res)
    case None
    with c have "r1 = rob s" "h1 = heap s"
      using rob_commit_head_cases [OF c] by auto
    with assms c None show ?thesis
      by (simp add: commit_instruction_def dbind_def)
  next
    case (Some j)
    with rob_commit_head_cases [OF c]
    have h1: "h1 = (heap s)(j := (heap s j)\<lparr>i_committed := True\<rparr>)" by auto
    let ?s1 = "s\<lparr>rob := r1, heap := h1\<rparr>"
    have t: "i_instr_type (heap ?s1 j) = i_instr_type (heap s j)"
      "i_speculative (heap ?s1 j) = i_speculative (heap s j)"
      "i_pc (heap ?s1 j) = i_pc (heap s j)"
      "i_address (heap ?s1 j) = i_address (heap s j)"
      "i_data (heap ?s1 j) = i_data (heap s j)"
      by (simp_all add: h1)
    show ?thesis
    proof (cases "i_instr_type (heap s j) = LOAD \<and> i_speculative (heap s j)")
      case True
      with assms c Some t obtain v s2 where
        v: "validate_load ?s1 j = Some (Inr (s2, v))"
        by (auto simp: commit_instruction_def dbind_Inr_iff Let_def)
      then have s2: "s2 = ?s1" by (rule validate_load_same)
      show ?thesis
      proof (cases v)
        case True
        with assms c Some t v s2 \<open>i_instr_type (heap s j) = LOAD \<and> i_speculative (heap s j)\<close> h1
        show ?thesis
          by (auto simp: commit_instruction_def dbind_Inr_iff Let_def)
      next
        case False
        with assms c Some t v s2 \<open>i_instr_type (heap s j) = LOAD \<and> i_speculative (heap s j)\<close> h1
        show ?thesis
          by (auto simp: commit_instruction_def dbind_Inr_iff Let_def)
      qed
    next
      case False
      with assms c Some t h1 show ?thesis
        by (auto simp: commit_instruction_def dbind_Inr_iff ebind_Inr_iff Let_def split: if_splits)
    qed
  qed
qed




lemma run_ok:
  "(case r of Some (Inr _) \<Rightarrow> True | _ \<Rightarrow> False) \<Longrightarrow> r = Some (Inr (projr (the r)))"
  by (auto split: option.splits sum.splits)

lemma snd_result:
  "map_option (map_sum id snd) m = Some (Inr y) \<Longrightarrow> \<exists>x. m = Some (Inr (x, y))"
  by (cases m) (auto simp: map_sum_def split: sum.splits)







text \<open>
  Claim C6 against the code. Whenever \<open>commit_instruction\<close> returns an instruction, the
  load-store queue after the call is the queue before it: no entry is freed and the
  occupancy does not decrease. The witness commits the store of the example program: its
  entry (sequence number 2, slot 0) is still in the queue, whose size is still 1.
\<close>

theorem commit_keeps_lsq_entry:
  assumes "commit_instruction sp s = Some (Inr (s', Some j))"
  shows "lsq s' = lsq s"
  using commit_cases [OF assms] by auto



theorem commit_keeps_lsq_entry_witness:
  "case pipe_run Min (Pipeline_init 32 16 example_program)
           [Issue 0, Issue 1, Issue 2, Execute 0, Execute 1, Execute 2, Commit, Commit] of
      Some (Inr s) \<Rightarrow>
        (\<exists>s'. commit_instruction Min s = Some (Inr (s', Some 2))
           \<and> i_instr_type (heap s 2) = STORE \<and> i_seq_num (heap s 2) = Some 2
           \<and> i_lsq_idx (heap s 2) = Some 0
           \<and> lsq_size (lsq s) = 1 \<and> lsq_size (lsq s') = 1
           \<and> map_option e_seq_num (lsq_entries (lsq s') ! 0) = Some 2)
    | _ \<Rightarrow> False"
proof -
  define r where "r = pipe_run Min (Pipeline_init 32 16 example_program)
           [Issue 0, Issue 1, Issue 2, Execute 0, Execute 1, Execute 2, Commit, Commit]"
  define s where "s = projr (the r)"
  have "(case r of Some (Inr _) \<Rightarrow> True | _ \<Rightarrow> False)" unfolding r_def by code_simp
  then have e: "r = Some (Inr s)" unfolding s_def by (rule run_ok)
  have "map_option (map_sum id snd) (commit_instruction Min s) = Some (Inr (Some 2))"
    unfolding s_def r_def by code_simp
  then have "\<exists>s'. commit_instruction Min s = Some (Inr (s', Some 2))" by (rule snd_result)
  then obtain s' where x: "commit_instruction Min s = Some (Inr (s', Some 2))" by blast
  have a: "i_instr_type (heap s 2) = STORE" "i_seq_num (heap s 2) = Some 2"
    "i_lsq_idx (heap s 2) = Some 0" "lsq_size (lsq s) = 1"
    "map_option e_seq_num (lsq_entries (lsq s) ! 0) = Some 2"
    unfolding s_def r_def by code_simp+
  from commit_keeps_lsq_entry [OF x] have "lsq s' = lsq s" .
  with x e a show ?thesis unfolding r_def [symmetric] by auto
qed



end
